theory Spec2Isabelle
  imports Complex_Main
begin

section \<open>Data model of \<open>signal_generator.py\<close>\<close>

text \<open>
  A bar is the dictionary the bars endpoint delivers, with the keys the docstring of
  \<open>generate_signals\<close> lists. Prices are Python floats; they are embedded as exact
  rationals, so every arithmetic statement below is about exact arithmetic on finite
  values. The key \<open>open\<close> is written \<open>open_price\<close>.
\<close>

record bar =
  time :: int
  open_price :: rat
  high :: rat
  low :: rat
  close :: rat
  volume :: rat

text \<open>The marker dictionary appended to \<open>points\<close>, one field per key.\<close>

record point =
  pt_time :: int
  pt_type :: string
  pt_price :: rat
  pt_label :: string
  pt_color :: string
  pt_shape :: string
  pt_size :: int

text \<open>The horizontal-line dictionary appended to \<open>lines\<close>, one field per key.\<close>

record line =
  line_id :: string
  line_price :: rat
  start_time :: int
  line_bars :: int
  line_label :: string
  line_color :: string
  line_style :: string
  line_width :: int

section \<open>String formatting used by the f-strings\<close>

definition digit_char :: "nat \<Rightarrow> char" where
  "digit_char d = char_of (48 + d)"

text \<open>\<open>str(n)\<close> for a non-negative integer: its decimal digits, most significant first.\<close>

fun str_nat :: "nat \<Rightarrow> string" where
  "str_nat n = (if n < 10 then [digit_char n] else str_nat (n div 10) @ [digit_char (n mod 10)])"

declare str_nat.simps [simp del]

text \<open>Right-justify in a field of the given width, filling with the character \<open>0\<close>.\<close>

definition zfill :: "nat \<Rightarrow> string \<Rightarrow> string" where
  "zfill w s = replicate (w - length s) (CHR ''0'') @ s"

text \<open>The format \<open>{signal_count:03d}\<close> of a counter that starts at 0 and only grows.\<close>

definition fmt_03d :: "nat \<Rightarrow> string" where
  "fmt_03d n = zfill 3 (str_nat n)"

text \<open>
  The format \<open>{x:.5f}\<close>: fixed point with five fractional digits, the exact value rounded
  half to even.
\<close>

definition round_half_even :: "rat \<Rightarrow> nat" where
  "round_half_even x =
     (let f = \<lfloor>x\<rfloor>; d = x - of_int f
      in nat (if d < 1 / 2 then f else if 1 / 2 < d then f + 1 else if even f then f else f + 1))"

definition fmt_5f :: "rat \<Rightarrow> string" where
  "fmt_5f x =
     (let n = round_half_even (\<bar>x\<bar> * 100000)
      in (if x < 0 then ''-'' else '''') @ str_nat (n div 100000) @ ''.'' @ zfill 5 (str_nat (n mod 100000)))"

section \<open>The signal generator\<close>

text \<open>The three local accumulators of \<open>generate_signals\<close>.\<close>

record gen_state =
  points :: "point list"
  lines :: "line list"
  signal_count :: nat

definition init_state :: gen_state where
  "init_state = \<lparr>points = [], lines = [], signal_count = 0\<rparr>"

text \<open>The test on \<open>prev = bars[i - 1]\<close> and \<open>curr = bars[i]\<close> (here \<open>cur\<close>) that guards the loop body.\<close>

definition is_inside_bar :: "bar \<Rightarrow> bar \<Rightarrow> bool" where
  "is_inside_bar prev cur \<longleftrightarrow> high cur < high prev \<and> low cur > low prev"

text \<open>
  One iteration of \<open>for i in range(2, len(bars))\<close>. The index is below \<open>len(bars)\<close>
  and at least 2 whenever the loop runs the body, so both list reads are in range.

  The arithmetic of the body is exact here. The source computes in binary64, where
  \<open>high + low\<close> is rounded before it is halved, so on floats the test
  \<open>close > mid_point\<close> can come out differently from the same test on the exact
  midpoint: with previous high 1.1, previous low 1.0996 and close 1.0998 the rounded
  midpoint equals the close, while the exact midpoint of these three floats lies below
  the close. Nothing below states which direction the source chooses on floats; the test
  only tells the two price formulas apart, on exact values. The inside-bar test, the
  number of points and lines, their times and their ids involve no arithmetic.
\<close>

definition loop_body :: "bar list \<Rightarrow> nat \<Rightarrow> gen_state \<Rightarrow> gen_state" where
  "loop_body bars i st =
     (let prev = bars ! (i - 1);
          cur = bars ! i
      in if \<not> is_inside_bar prev cur then st
         else
           let mid_point = (high prev + low prev) / 2;
               is_bullish = close cur > mid_point;
               bar_time = time cur;
               entry_price = close cur;
               signal_id = ''signal_'' @ fmt_03d (signal_count st);
               count' = signal_count st + 1
           in if is_bullish then
                let stop_loss = low prev - 5 / 10000;
                    tp1 = entry_price + (entry_price - stop_loss) * 1;
                    tp2 = entry_price + (entry_price - stop_loss) * 2;
                    tp3 = entry_price + (entry_price - stop_loss) * 3
                in \<lparr>points = points st @
                      [\<lparr>pt_time = bar_time, pt_type = ''low'', pt_price = entry_price,
                        pt_label = ''BUY'', pt_color = ''#3b82f6'', pt_shape = ''arrowUp'',
                        pt_size = 2\<rparr>],
                    lines = lines st @
                      [\<lparr>line_id = signal_id @ ''_entry'', line_price = entry_price, start_time = bar_time,
                       line_bars = 15, line_label = ''Entry: '' @ fmt_5f entry_price,
                       line_color = ''#3b82f6'', line_style = ''dashed'', line_width = 1\<rparr>,
                       \<lparr>line_id = signal_id @ ''_sl'', line_price = stop_loss, start_time = bar_time,
                       line_bars = 15, line_label = ''SL: '' @ fmt_5f stop_loss,
                       line_color = ''#ef4444'', line_style = ''solid'', line_width = 2\<rparr>,
                       \<lparr>line_id = signal_id @ ''_tp1'', line_price = tp1, start_time = bar_time,
                       line_bars = 15, line_label = ''TP1: '' @ fmt_5f tp1,
                       line_color = ''#22c55e'', line_style = ''dotted'', line_width = 1\<rparr>,
                       \<lparr>line_id = signal_id @ ''_tp2'', line_price = tp2, start_time = bar_time,
                       line_bars = 15, line_label = ''TP2: '' @ fmt_5f tp2,
                       line_color = ''#10b981'', line_style = ''dotted'', line_width = 1\<rparr>,
                       \<lparr>line_id = signal_id @ ''_tp3'', line_price = tp3, start_time = bar_time,
                       line_bars = 15, line_label = ''TP3: '' @ fmt_5f tp3,
                       line_color = ''#059669'', line_style = ''dotted'', line_width = 1\<rparr>],
                    signal_count = count'\<rparr>
              else
                let stop_loss = high prev + 5 / 10000;
                    tp1 = entry_price - (stop_loss - entry_price) * 1;
                    tp2 = entry_price - (stop_loss - entry_price) * 2;
                    tp3 = entry_price - (stop_loss - entry_price) * 3
                in \<lparr>points = points st @
                      [\<lparr>pt_time = bar_time, pt_type = ''high'', pt_price = entry_price,
                        pt_label = ''SELL'', pt_color = ''#f97316'', pt_shape = ''arrowDown'',
                        pt_size = 2\<rparr>],
                    lines = lines st @
                      [\<lparr>line_id = signal_id @ ''_entry'', line_price = entry_price, start_time = bar_time,
                       line_bars = 15, line_label = ''Entry: '' @ fmt_5f entry_price,
                       line_color = ''#f97316'', line_style = ''dashed'', line_width = 1\<rparr>,
                       \<lparr>line_id = signal_id @ ''_sl'', line_price = stop_loss, start_time = bar_time,
                       line_bars = 15, line_label = ''SL: '' @ fmt_5f stop_loss,
                       line_color = ''#ef4444'', line_style = ''solid'', line_width = 2\<rparr>,
                       \<lparr>line_id = signal_id @ ''_tp1'', line_price = tp1, start_time = bar_time,
                       line_bars = 15, line_label = ''TP1: '' @ fmt_5f tp1,
                       line_color = ''#22c55e'', line_style = ''dotted'', line_width = 1\<rparr>,
                       \<lparr>line_id = signal_id @ ''_tp2'', line_price = tp2, start_time = bar_time,
                       line_bars = 15, line_label = ''TP2: '' @ fmt_5f tp2,
                       line_color = ''#10b981'', line_style = ''dotted'', line_width = 1\<rparr>,
                       \<lparr>line_id = signal_id @ ''_tp3'', line_price = tp3, start_time = bar_time,
                       line_bars = 15, line_label = ''TP3: '' @ fmt_5f tp3,
                       line_color = ''#059669'', line_style = ''dotted'', line_width = 1\<rparr>],
                    signal_count = count'\<rparr>)"

text \<open>
  The state after the iterations for the indices \<open>2, \<dots>, k - 1\<close>, starting from the
  fresh accumulators every invocation creates.
\<close>

definition gen_upto :: "bar list \<Rightarrow> nat \<Rightarrow> gen_state" where
  "gen_upto bars k = fold (loop_body bars) [2..<k] init_state"

definition generate_signals :: "bar list \<Rightarrow> point list \<times> line list" where
  "generate_signals bars = (let st = gen_upto bars (length bars) in (points st, lines st))"

text \<open>What the iteration for index \<open>i\<close> appends to the two result lists.\<close>

definition points_emitted_at :: "bar list \<Rightarrow> nat \<Rightarrow> point list" where
  "points_emitted_at bars i =
     drop (length (points (gen_upto bars i))) (points (gen_upto bars (Suc i)))"

definition lines_emitted_at :: "bar list \<Rightarrow> nat \<Rightarrow> line list" where
  "lines_emitted_at bars i =
     drop (length (lines (gen_upto bars i))) (lines (gen_upto bars (Suc i)))"

section \<open>Configuration constants\<close>

definition API_URL :: string where
  "API_URL = ''https://api.innova-trading.com''"

definition API_KEY :: string where
  "API_KEY = ''tu_api_key_aqui''"

definition INDICATOR_ID :: string where
  "INDICATOR_ID = ''mi_indicador''"

text \<open>The character after \<open>Se\<close> is the code point U+00F1.\<close>

definition INDICATOR_NAME :: string where
  "INDICATOR_NAME = ''Mi Indicador de Se'' @ [CHR 0xF1] @ ''ales''"

definition SYMBOL :: string where
  "SYMBOL = ''EURUSD''"

definition TIMEFRAME :: int where
  "TIMEFRAME = 60"

section \<open>The HTTP boundary\<close>

text \<open>
  A call of \<open>requests.get\<close> or \<open>requests.post\<close> either raises (connection error,
  timeout) or returns a response. \<open>response.json()\<close> raises when the body is not JSON;
  a decoded value that is not a dictionary has no method \<open>get\<close>, so calling it raises
  too; otherwise the value is a dictionary. Entries of the bars dictionary are typed as
  the annotation \<open>Optional[List[Dict]]\<close> of \<open>get_bars\<close> says.
\<close>

datatype pyval = PStr string | PInt int

datatype 'v json_body = Invalid | NonDict | Dict "string \<rightharpoonup> 'v"

record 'v response =
  status_code :: int
  text_body :: string
  json :: "'v json_body"

datatype 'r http_result = Raises string | Returns 'r

record get_request =
  get_url :: string
  get_params :: "(string \<times> pyval) list"
  get_headers :: "(string \<times> string) list"
  get_timeout :: int

record payload =
  pl_symbol :: string
  pl_timeframe :: int
  pl_indicator_name :: string
  pl_version :: string
  pl_points :: "point list"
  pl_lines :: "line list"
  pl_metadata :: "string \<rightharpoonup> pyval"

record post_request =
  post_url :: string
  post_json :: payload
  post_headers :: "(string \<times> string) list"
  post_timeout :: int

text \<open>The remote service: what each request is answered with.\<close>

record net =
  http_get :: "get_request \<Rightarrow> bar list response http_result"
  http_post :: "post_request \<Rightarrow> pyval response http_result"

text \<open>The HTTP calls a function performed, in order.\<close>

datatype call = Get get_request | Post post_request

fun is_post :: "call \<Rightarrow> bool" where
  "is_post (Post r) = True"
| "is_post (Get r) = False"

section \<open>API functions\<close>

text \<open>
  \<open>get_bars\<close>: one GET inside \<open>try\<close>; \<open>except Exception\<close> turns every raise into
  \<open>None\<close>. The result is paired with the calls made. Console output is not modelled.
\<close>

definition get_bars :: "net \<Rightarrow> string \<Rightarrow> int \<Rightarrow> int \<Rightarrow> bar list option \<times> call list" where
  "get_bars nt symbol timeframe limit =
     (let url = API_URL @ ''/api/external/bars'';
          params = [(''symbol'', PStr symbol), (''timeframe'', PInt timeframe),
                    (''limit'', PInt limit)];
          headers = [(''Authorization'', ''Bearer '' @ API_KEY)];
          req = \<lparr>get_url = url, get_params = params, get_headers = headers, get_timeout = 30\<rparr>
      in (case http_get nt req of
            Raises e \<Rightarrow> None
          | Returns response \<Rightarrow>
              if status_code response = 200 then
                (case json response of
                   Invalid \<Rightarrow> None
                 | NonDict \<Rightarrow> None
                 | Dict data \<Rightarrow> Some (case data ''bars'' of None \<Rightarrow> [] | Some v \<Rightarrow> v))
              else None,
          [Get req]))"

text \<open>
  \<open>submit_signals\<close>: one POST inside \<open>try\<close>. On status 200 or 201 the body is decoded
  and read with \<open>get\<close> for the console message before \<open>True\<close> is returned, so a raise
  there reaches \<open>except Exception\<close> and the result is \<open>False\<close>. \<open>lines or []\<close> and
  \<open>metadata or {}\<close> replace \<open>None\<close> (and an empty value) by the empty value.
\<close>

definition submit_signals ::
  "net \<Rightarrow> string \<Rightarrow> string \<Rightarrow> int \<Rightarrow> string \<Rightarrow> point list \<Rightarrow> line list option \<Rightarrow>
   (string \<rightharpoonup> pyval) option \<Rightarrow> bool \<times> call list" where
  "submit_signals nt indicator_id symbol timeframe indicator_name pts lns metadata =
     (let url = API_URL @ ''/api/external/indicators/'' @ indicator_id;
          headers = [(''Authorization'', ''Bearer '' @ API_KEY),
                     (''Content-Type'', ''application/json'')];
          pl = \<lparr>pl_symbol = symbol, pl_timeframe = timeframe,
                pl_indicator_name = indicator_name, pl_version = ''1.0'', pl_points = pts,
                pl_lines = (case lns of None \<Rightarrow> [] | Some ls \<Rightarrow> ls),
                pl_metadata = (case metadata of None \<Rightarrow> Map.empty | Some m \<Rightarrow> m)\<rparr>;
          req = \<lparr>post_url = url, post_json = pl, post_headers = headers, post_timeout = 30\<rparr>
      in (case http_post nt req of
            Raises e \<Rightarrow> False
          | Returns response \<Rightarrow>
              if status_code response \<in> set [200, 201] then
                (case json response of
                   Invalid \<Rightarrow> False
                 | NonDict \<Rightarrow> False
                 | Dict result \<Rightarrow> True)
              else False,
          [Post req]))"

section \<open>Single-shot run\<close>

text \<open>
  \<open>run_once\<close>, with the UTC timestamp \<open>datetime.now(timezone.utc).isoformat()\<close> of the
  metadata as an argument. \<open>not bars\<close> holds for \<open>None\<close> and for the empty list.
\<close>

definition run_once :: "net \<Rightarrow> string \<Rightarrow> bool \<times> call list" where
  "run_once nt now =
     (let (bars, calls1) = get_bars nt SYMBOL TIMEFRAME 500
      in case bars of
           None \<Rightarrow> (False, calls1)
         | Some bs \<Rightarrow>
             if bs = [] then (False, calls1)
             else
               let (pts, lns) = generate_signals bs
               in if pts = [] \<and> lns = [] then (True, calls1)
                  else
                    let buy_signals = length (filter (\<lambda>s. pt_label s = ''BUY'') pts);
                        sell_signals = length (filter (\<lambda>s. pt_label s = ''SELL'') pts);
                        metadata = [''generated_at'' \<mapsto> PStr now,
                                    ''total_points'' \<mapsto> PInt (int (length pts)),
                                    ''total_lines'' \<mapsto> PInt (int (length lns)),
                                    ''buy_count'' \<mapsto> PInt (int buy_signals),
                                    ''sell_count'' \<mapsto> PInt (int sell_signals),
                                    ''strategy'' \<mapsto> PStr ''Inside Bar with Multi-TP + Lines''];
                        (success, calls2) =
                          submit_signals nt INDICATOR_ID SYMBOL TIMEFRAME INDICATOR_NAME
                            pts (Some lns) (Some metadata)
                    in (success, calls1 @ calls2))"

section \<open>Auxiliary definitions for the proofs\<close>

text \<open>Reading a decimal string back as a number; the left inverse of \<open>str_nat\<close>.\<close>

definition dec_val :: "string \<Rightarrow> nat" where
  "dec_val s = foldl (\<lambda>a c. 10 * a + (of_char c - 48)) 0 s"

text \<open>The five line ids that the signal with counter value \<open>k\<close> receives.\<close>

definition batch_ids :: "nat \<Rightarrow> string list" where
  "batch_ids k =
     map (\<lambda>s. ''signal_'' @ fmt_03d k @ s) [''_entry'', ''_sl'', ''_tp1'', ''_tp2'', ''_tp3'']"

text \<open>The loop invariant relating the counter, the points and the lines.\<close>

definition gen_inv :: "gen_state \<Rightarrow> bool" where
  "gen_inv st \<longleftrightarrow>
     signal_count st = length (points st) \<and>
     map line_id (lines st) = concat (map batch_ids [0..<length (points st)]) \<and>
     map (\<lambda>l. (start_time l, line_bars l)) (lines st) =
       concat (map (\<lambda>p. replicate 5 (pt_time p, 15)) (points st))"

section \<open>Concrete inputs\<close>

text \<open>
  Four hourly bars. Bar 1 lies inside bar 0, bar 2 inside bar 1 with a close above the
  midpoint of bar 1, and bar 3 inside bar 2 with a close equal to the midpoint of bar 2.
\<close>

definition ex_bars :: "bar list" where
  "ex_bars =
     [\<lparr>time = 1700000000, open_price = 11030 / 10000, high = 11060 / 10000, low = 11020 / 10000,
       close = 11040 / 10000, volume = 100\<rparr>,
      \<lparr>time = 1700003600, open_price = 11040 / 10000, high = 11050 / 10000, low = 11030 / 10000,
       close = 11040 / 10000, volume = 100\<rparr>,
      \<lparr>time = 1700007200, open_price = 11040 / 10000, high = 11049 / 10000, low = 11031 / 10000,
       close = 11045 / 10000, volume = 100\<rparr>,
      \<lparr>time = 1700010800, open_price = 11045 / 10000, high = 11048 / 10000, low = 11032 / 10000,
       close = 11040 / 10000, volume = 100\<rparr>]"

definition ex_pair :: "bar list" where
  "ex_pair = take 2 ex_bars"

text \<open>A service that answers every GET with \<open>g\<close> and every POST with \<open>p\<close>.\<close>

definition const_net :: "bar list response http_result \<Rightarrow> pyval response http_result \<Rightarrow> net" where
  "const_net g p = \<lparr>http_get = (\<lambda>r. g), http_post = (\<lambda>r. p)\<rparr>"

definition ex_now :: string where
  "ex_now = ''2023-11-14T22:13:20+00:00''"

section \<open>The loop, one iteration at a time\<close>

lemma gen_upto_Suc: "2 \<le> i \<Longrightarrow> gen_upto bars (Suc i) = loop_body bars i (gen_upto bars i)"
  by (simp add: gen_upto_def)

lemma loop_body_skip:
  "\<not> is_inside_bar (bars ! (i - 1)) (bars ! i) \<Longrightarrow> loop_body bars i st = st"
  by (simp add: loop_body_def)

lemma loop_body_count:
  "is_inside_bar (bars ! (i - 1)) (bars ! i) \<Longrightarrow>
   signal_count (loop_body bars i st) = Suc (signal_count st)"
  by (simp add: loop_body_def Let_def)

lemma loop_body_points:
  "is_inside_bar (bars ! (i - 1)) (bars ! i) \<Longrightarrow>
   points (loop_body bars i st) = points st @
     [if close (bars ! i) > (high (bars ! (i - 1)) + low (bars ! (i - 1))) / 2
      then \<lparr>pt_time = time (bars ! i), pt_type = ''low'', pt_price = close (bars ! i),
            pt_label = ''BUY'', pt_color = ''#3b82f6'', pt_shape = ''arrowUp'', pt_size = 2\<rparr>
      else \<lparr>pt_time = time (bars ! i), pt_type = ''high'', pt_price = close (bars ! i),
            pt_label = ''SELL'', pt_color = ''#f97316'', pt_shape = ''arrowDown'', pt_size = 2\<rparr>]"
  by (simp add: loop_body_def Let_def)

lemma loop_body_lines_length:
  "is_inside_bar (bars ! (i - 1)) (bars ! i) \<Longrightarrow>
   \<exists>l1 l2 l3 l4 l5. lines (loop_body bars i st) = lines st @ [l1, l2, l3, l4, l5]"
  by (simp add: loop_body_def Let_def)

lemma loop_body_new_lines:
  assumes "is_inside_bar (bars ! (i - 1)) (bars ! i)"
  shows "\<exists>new. lines (loop_body bars i st) = lines st @ new \<and>
           map line_id new = batch_ids (signal_count st) \<and>
           map (\<lambda>l. (start_time l, line_bars l)) new = replicate 5 (time (bars ! i), 15)"
  using assms
  by (simp add: loop_body_def Let_def batch_ids_def numeral_eq_Suc)

lemma loop_body_new_point_time:
  assumes "is_inside_bar (bars ! (i - 1)) (bars ! i)"
  shows "\<exists>p. points (loop_body bars i st) = points st @ [p] \<and> pt_time p = time (bars ! i)"
  using assms by (simp add: loop_body_def Let_def)

lemma loop_body_line_prices:
  assumes "is_inside_bar (bars ! (i - 1)) (bars ! i)"
  shows "\<exists>sid. map (\<lambda>l. (line_id l, line_price l))
                 (drop (length (lines st)) (lines (loop_body bars i st))) =
     (if close (bars ! i) > (high (bars ! (i - 1)) + low (bars ! (i - 1))) / 2
      then [(sid @ ''_entry'', close (bars ! i)),
            (sid @ ''_sl'', low (bars ! (i - 1)) - 5 / 10000),
            (sid @ ''_tp1'',
               close (bars ! i) + 1 * (close (bars ! i) - (low (bars ! (i - 1)) - 5 / 10000))),
            (sid @ ''_tp2'',
               close (bars ! i) + 2 * (close (bars ! i) - (low (bars ! (i - 1)) - 5 / 10000))),
            (sid @ ''_tp3'',
               close (bars ! i) + 3 * (close (bars ! i) - (low (bars ! (i - 1)) - 5 / 10000)))]
      else [(sid @ ''_entry'', close (bars ! i)),
            (sid @ ''_sl'', high (bars ! (i - 1)) + 5 / 10000),
            (sid @ ''_tp1'',
               close (bars ! i) - 1 * (high (bars ! (i - 1)) + 5 / 10000 - close (bars ! i))),
            (sid @ ''_tp2'',
               close (bars ! i) - 2 * (high (bars ! (i - 1)) + 5 / 10000 - close (bars ! i))),
            (sid @ ''_tp3'',
               close (bars ! i) - 3 * (high (bars ! (i - 1)) + 5 / 10000 - close (bars ! i)))])"
  using assms
  by (intro exI [of _ "''signal_'' @ fmt_03d (signal_count st)"])
     (simp add: loop_body_def Let_def)

lemma points_step:
  "points (gen_upto bars (Suc i)) = points (gen_upto bars i) @ points_emitted_at bars i"
proof (cases "2 \<le> i")
  case False
  then show ?thesis by (simp add: points_emitted_at_def gen_upto_def)
next
  case True
  show ?thesis
  proof (cases "is_inside_bar (bars ! (i - 1)) (bars ! i)")
    case False
    with True show ?thesis by (simp add: points_emitted_at_def gen_upto_Suc loop_body_skip)
  next
    case inside: True
    with True show ?thesis by (simp add: points_emitted_at_def gen_upto_Suc loop_body_points)
  qed
qed

lemma lines_step:
  "lines (gen_upto bars (Suc i)) = lines (gen_upto bars i) @ lines_emitted_at bars i"
proof (cases "2 \<le> i")
  case False
  then show ?thesis by (simp add: lines_emitted_at_def gen_upto_def)
next
  case True
  show ?thesis
  proof (cases "is_inside_bar (bars ! (i - 1)) (bars ! i)")
    case False
    with True show ?thesis by (simp add: lines_emitted_at_def gen_upto_Suc loop_body_skip)
  next
    case inside: True
    from loop_body_lines_length [OF inside, of "gen_upto bars i"] True show ?thesis
      by (auto simp: lines_emitted_at_def gen_upto_Suc)
  qed
qed

lemma points_concat: "points (gen_upto bars n) = concat (map (points_emitted_at bars) [0..<n])"
proof (induction n)
  case 0
  show ?case by (simp add: gen_upto_def init_state_def)
next
  case (Suc n)
  then show ?case by (simp add: points_step)
qed

lemma lines_concat: "lines (gen_upto bars n) = concat (map (lines_emitted_at bars) [0..<n])"
proof (induction n)
  case 0
  show ?case by (simp add: gen_upto_def init_state_def)
next
  case (Suc n)
  then show ?case by (simp add: lines_step)
qed

lemma emitted_skip:
  "\<not> (2 \<le> i \<and> is_inside_bar (bars ! (i - 1)) (bars ! i)) \<Longrightarrow>
   points_emitted_at bars i = [] \<and> lines_emitted_at bars i = []"
  by (cases "2 \<le> i")
     (auto simp: points_emitted_at_def lines_emitted_at_def gen_upto_Suc loop_body_skip
        gen_upto_def)

lemma points_emitted_inside:
  "2 \<le> i \<Longrightarrow> is_inside_bar (bars ! (i - 1)) (bars ! i) \<Longrightarrow>
   points_emitted_at bars i =
     [if close (bars ! i) > (high (bars ! (i - 1)) + low (bars ! (i - 1))) / 2
      then \<lparr>pt_time = time (bars ! i), pt_type = ''low'', pt_price = close (bars ! i),
            pt_label = ''BUY'', pt_color = ''#3b82f6'', pt_shape = ''arrowUp'', pt_size = 2\<rparr>
      else \<lparr>pt_time = time (bars ! i), pt_type = ''high'', pt_price = close (bars ! i),
            pt_label = ''SELL'', pt_color = ''#f97316'', pt_shape = ''arrowDown'', pt_size = 2\<rparr>]"
  by (simp add: points_emitted_at_def gen_upto_Suc loop_body_points)

lemma lines_emitted_inside_length:
  "2 \<le> i \<Longrightarrow> is_inside_bar (bars ! (i - 1)) (bars ! i) \<Longrightarrow>
   length (lines_emitted_at bars i) = 5"
  using loop_body_lines_length [of bars i "gen_upto bars i"]
  by (auto simp: lines_emitted_at_def gen_upto_Suc)

section \<open>Facts about the example bars\<close>

lemma ex_bars_length: "length ex_bars = 4"
  by (simp add: ex_bars_def)

lemma ex_bars_nth:
  "ex_bars ! Suc 0 = \<lparr>time = 1700003600, open_price = 11040 / 10000, high = 11050 / 10000,
     low = 11030 / 10000, close = 11040 / 10000, volume = 100\<rparr>"
  "ex_bars ! 2 = \<lparr>time = 1700007200, open_price = 11040 / 10000, high = 11049 / 10000,
     low = 11031 / 10000, close = 11045 / 10000, volume = 100\<rparr>"
  "ex_bars ! 3 = \<lparr>time = 1700010800, open_price = 11045 / 10000, high = 11048 / 10000,
     low = 11032 / 10000, close = 11040 / 10000, volume = 100\<rparr>"
  by (simp_all add: ex_bars_def)

lemma ex_bars_inside_2: "is_inside_bar (ex_bars ! (2 - 1)) (ex_bars ! 2)"
  by (simp add: ex_bars_def is_inside_bar_def)

lemma ex_bars_inside_3: "is_inside_bar (ex_bars ! (3 - 1)) (ex_bars ! 3)"
  by (simp add: ex_bars_def is_inside_bar_def)

lemma ex_pair_no_signals: "generate_signals ex_pair = ([], [])"
  by (simp add: ex_pair_def ex_bars_def generate_signals_def gen_upto_def init_state_def)

lemma ex_bars_points_length: "length (fst (generate_signals ex_bars)) = 2"
proof -
  have "points_emitted_at ex_bars 0 = []" "points_emitted_at ex_bars 1 = []"
    using emitted_skip [of 0 ex_bars] emitted_skip [of 1 ex_bars] by simp_all
  moreover have "length (points_emitted_at ex_bars 2) = 1" "length (points_emitted_at ex_bars 3) = 1"
    using points_emitted_inside [OF _ ex_bars_inside_2] points_emitted_inside [OF _ ex_bars_inside_3]
    by simp_all
  moreover have "[0..<4] = [0, 1, 2, 3]"
    by (simp add: upt_rec)
  ultimately show ?thesis
    by (simp add: generate_signals_def Let_def points_concat ex_bars_length)
qed

lemma ex_bars_second_point_time: "pt_time (fst (generate_signals ex_bars) ! Suc 0) = 1700010800"
proof -
  have "points_emitted_at ex_bars 0 = []" "points_emitted_at ex_bars 1 = []"
    using emitted_skip [of 0 ex_bars] emitted_skip [of 1 ex_bars] by simp_all
  moreover have "length (points_emitted_at ex_bars 2) = 1"
    using points_emitted_inside [OF _ ex_bars_inside_2] by simp
  moreover have "map pt_time (points_emitted_at ex_bars 3) = [1700010800]"
    using points_emitted_inside [OF _ ex_bars_inside_3] by (simp add: ex_bars_nth)
  moreover have "[0..<4] = [0, 1, 2, 3]"
    by (simp add: upt_rec)
  ultimately show ?thesis
    by (auto simp: generate_signals_def Let_def points_concat ex_bars_length nth_append
        length_Suc_conv)
qed

section \<open>Decimal formatting of the signal counter\<close>

lemma of_char_digit: "d < 10 \<Longrightarrow> of_char (digit_char d) = 48 + d"
  by (simp add: digit_char_def)

lemma dec_val_snoc: "dec_val (s @ [c]) = 10 * dec_val s + (of_char c - 48)"
  by (simp add: dec_val_def)

lemma dec_val_str_nat: "dec_val (str_nat n) = n"
proof (induction n rule: str_nat.induct)
  case (1 n)
  show ?case
  proof (cases "n < 10")
    case True
    then show ?thesis by (simp add: str_nat.simps [of n] dec_val_def of_char_digit)
  next
    case False
    with 1 have "dec_val (str_nat (n div 10)) = n div 10" by simp
    with False show ?thesis
      by (simp add: str_nat.simps [of n] dec_val_snoc of_char_digit)
  qed
qed

lemma dec_val_zeros: "dec_val (replicate k (CHR ''0'') @ s) = dec_val s"
proof -
  have "foldl (\<lambda>a c. 10 * a + (of_char c - 48)) (0::nat) (replicate k (CHR ''0'')) = 0"
    by (induction k) simp_all
  then show ?thesis by (simp add: dec_val_def)
qed

lemma dec_val_fmt_03d: "dec_val (fmt_03d n) = n"
  by (simp add: fmt_03d_def zfill_def dec_val_zeros dec_val_str_nat)

lemma fmt_03d_inj: "fmt_03d m = fmt_03d n \<Longrightarrow> m = n"
  by (metis dec_val_fmt_03d)

lemma digit_char_not_underscore: "d < 10 \<Longrightarrow> digit_char d \<noteq> CHR ''_''"
proof
  assume "d < 10" and "digit_char d = CHR ''_''"
  then have "of_char (digit_char d) = (of_char (CHR ''_'') :: nat)" by simp
  with \<open>d < 10\<close> show False by (simp add: of_char_digit)
qed

lemma str_nat_no_underscore: "CHR ''_'' \<notin> set (str_nat n)"
proof (induction n rule: str_nat.induct)
  case (1 n)
  show ?case
  proof (cases "n < 10")
    case True
    then show ?thesis
      using digit_char_not_underscore [of n] by (auto simp: str_nat.simps [of n])
  next
    case False
    with 1 have "CHR ''_'' \<notin> set (str_nat (n div 10))" by simp
    moreover have "digit_char (n mod 10) \<noteq> CHR ''_''"
      by (rule digit_char_not_underscore) simp
    ultimately show ?thesis using False by (auto simp: str_nat.simps [of n])
  qed
qed

lemma fmt_03d_no_underscore: "CHR ''_'' \<notin> set (fmt_03d n)"
  using str_nat_no_underscore [of n] by (auto simp: fmt_03d_def zfill_def)

lemma takeWhile_until: "c \<notin> set xs \<Longrightarrow> takeWhile (\<lambda>x. x \<noteq> c) (xs @ c # t) = xs"
  by (induction xs) auto

lemma signal_prefix_unique:
  assumes "fmt_03d m @ CHR ''_'' # s = fmt_03d n @ CHR ''_'' # t"
  shows "m = n \<and> s = t"
proof -
  have "takeWhile (\<lambda>x. x \<noteq> CHR ''_'') (fmt_03d m @ CHR ''_'' # s) = fmt_03d m"
    by (rule takeWhile_until) (rule fmt_03d_no_underscore)
  moreover have "takeWhile (\<lambda>x. x \<noteq> CHR ''_'') (fmt_03d n @ CHR ''_'' # t) = fmt_03d n"
    by (rule takeWhile_until) (rule fmt_03d_no_underscore)
  ultimately have "fmt_03d m = fmt_03d n" using assms by simp
  then have "m = n" by (rule fmt_03d_inj)
  with assms show ?thesis by simp
qed

lemma fmt_03d_0: "fmt_03d 0 = ''000''"
  by code_simp

lemma fmt_03d_1: "fmt_03d (Suc 0) = ''001''"
  by code_simp

lemma batch_ids_distinct: "distinct (batch_ids k)"
  by (simp add: batch_ids_def)

lemma batch_ids_disjoint: "x \<in> set (batch_ids m) \<Longrightarrow> x \<in> set (batch_ids n) \<Longrightarrow> m = n"
  by (auto simp: batch_ids_def dest: signal_prefix_unique fmt_03d_inj)

lemma all_ids_distinct: "distinct (concat (map batch_ids [0..<n]))"
proof (induction n)
  case 0
  show ?case by simp
next
  case (Suc n)
  have "set (batch_ids n) \<inter> set (concat (map batch_ids [0..<n])) = {}"
  proof (rule ccontr)
    assume "set (batch_ids n) \<inter> set (concat (map batch_ids [0..<n])) \<noteq> {}"
    then obtain x k where "x \<in> set (batch_ids n)" "k < n" "x \<in> set (batch_ids k)"
      by auto
    then show False using batch_ids_disjoint [of x n k] by simp
  qed
  with Suc batch_ids_distinct [of n] show ?case by auto
qed

lemma batch_ids_nth:
  assumes "j < 5"
  shows "batch_ids k ! j =
    ''signal_'' @ fmt_03d k @ [''_entry'', ''_sl'', ''_tp1'', ''_tp2'', ''_tp3''] ! j"
proof -
  from assms have "j = 0 \<or> j = 1 \<or> j = 2 \<or> j = 3 \<or> j = 4" by arith
  then show ?thesis by (auto simp: batch_ids_def)
qed

section \<open>The loop invariant\<close>

lemma gen_inv_init: "gen_inv init_state"
  by (simp add: gen_inv_def init_state_def)

lemma gen_inv_loop_body: "gen_inv st \<Longrightarrow> gen_inv (loop_body bars i st)"
proof (cases "is_inside_bar (bars ! (i - 1)) (bars ! i)")
  case False
  assume "gen_inv st"
  with False show ?thesis by (simp add: loop_body_skip)
next
  case True
  assume inv: "gen_inv st"
  obtain new where new: "lines (loop_body bars i st) = lines st @ new"
      "map line_id new = batch_ids (signal_count st)"
      "map (\<lambda>l. (start_time l, line_bars l)) new = replicate 5 (time (bars ! i), 15)"
    using loop_body_new_lines [OF True] by blast
  obtain p where p: "points (loop_body bars i st) = points st @ [p]" "pt_time p = time (bars ! i)"
    using loop_body_new_point_time [OF True] by blast
  have cnt: "signal_count (loop_body bars i st) = Suc (signal_count st)"
    by (rule loop_body_count [OF True])
  from inv new p cnt show ?thesis
    by (simp add: gen_inv_def)
qed

lemma gen_inv_fold: "gen_inv st \<Longrightarrow> gen_inv (fold (loop_body bars) js st)"
  by (induction js arbitrary: st) (simp_all add: gen_inv_loop_body)

lemma gen_inv_gen_upto: "gen_inv (gen_upto bars k)"
  unfolding gen_upto_def by (rule gen_inv_fold) (rule gen_inv_init)

lemma nth_concat_uniform:
  "\<forall>x \<in> set xss. length x = n \<Longrightarrow> k < length xss \<Longrightarrow> j < n \<Longrightarrow>
   concat xss ! (n * k + j) = xss ! k ! j"
proof (induction xss arbitrary: k)
  case Nil
  then show ?case by simp
next
  case (Cons xs xss)
  show ?case
  proof (cases k)
    case 0
    with Cons.prems show ?thesis by (simp add: nth_append)
  next
    case (Suc k')
    with Cons.prems have "concat xss ! (n * k' + j) = xss ! k' ! j"
      by (intro Cons.IH) auto
    moreover have "n * k + j = length xs + (n * k' + j)"
      using Cons.prems Suc by simp
    ultimately show ?thesis using Suc by (simp add: nth_append)
  qed
qed

lemma length_concat_uniform:
  "\<forall>x \<in> set xss. length x = n \<Longrightarrow> length (concat xss) = n * length xss"
  by (induction xss) simp_all

lemma generate_signals_inv:
  assumes "generate_signals bars = (ps, ls)"
  shows "map line_id ls = concat (map batch_ids [0..<length ps])"
    and "map (\<lambda>l. (start_time l, line_bars l)) ls =
           concat (map (\<lambda>p. replicate 5 (pt_time p, 15)) ps)"
    and "length ls = 5 * length ps"
proof -
  from assms have ps: "ps = points (gen_upto bars (length bars))"
    and ls: "ls = lines (gen_upto bars (length bars))"
    by (simp_all add: generate_signals_def Let_def)
  from gen_inv_gen_upto [of bars "length bars"] ps ls
  show ids: "map line_id ls = concat (map batch_ids [0..<length ps])"
    and "map (\<lambda>l. (start_time l, line_bars l)) ls =
           concat (map (\<lambda>p. replicate 5 (pt_time p, 15)) ps)"
    by (simp_all add: gen_inv_def)
  have "length (concat (map batch_ids [0..<length ps])) =
          5 * length (map batch_ids [0..<length ps])"
    by (rule length_concat_uniform) (auto simp: batch_ids_def)
  with ids show "length ls = 5 * length ps"
    by (metis length_map length_upt minus_nat.diff_0)
qed

lemma generate_signals_nth_id:
  assumes "generate_signals bars = (ps, ls)" "k < length ps" "j < 5"
  shows "line_id (ls ! (5 * k + j)) = batch_ids k ! j"
proof -
  have len: "5 * k + j < length ls"
    using assms generate_signals_inv(3) [OF assms(1)] by simp
  have "concat (map batch_ids [0..<length ps]) ! (5 * k + j) =
          map batch_ids [0..<length ps] ! k ! j"
    by (rule nth_concat_uniform) (use assms in \<open>auto simp: batch_ids_def\<close>)
  then have "map line_id ls ! (5 * k + j) = batch_ids k ! j"
    using assms generate_signals_inv(1) [OF assms(1)] by simp
  with len show ?thesis by simp
qed

lemma generate_signals_nth_time:
  assumes "generate_signals bars = (ps, ls)" "k < length ps" "j < 5"
  shows "start_time (ls ! (5 * k + j)) = pt_time (ps ! k) \<and> line_bars (ls ! (5 * k + j)) = 15"
proof -
  have len: "5 * k + j < length ls"
    using assms generate_signals_inv(3) [OF assms(1)] by simp
  have "concat (map (\<lambda>p. replicate 5 (pt_time p, 15::int)) ps) ! (5 * k + j)
        = map (\<lambda>p. replicate 5 (pt_time p, 15)) ps ! k ! j"
    by (rule nth_concat_uniform) (use assms in auto)
  then have "map (\<lambda>l. (start_time l, line_bars l)) ls ! (5 * k + j) = (pt_time (ps ! k), 15)"
    using assms generate_signals_inv(2) [OF assms(1)] by simp
  with len show ?thesis by simp
qed

lemma first_batch_ids:
  assumes "generate_signals bars = (ps, ls)" "ls \<noteq> []"
  shows "map line_id (take 5 ls) =
     [''signal_000_entry'', ''signal_000_sl'', ''signal_000_tp1'', ''signal_000_tp2'',
      ''signal_000_tp3'']"
proof -
  from assms generate_signals_inv(3) [OF assms(1)] have "0 < length ps" by auto
  then have "[0..<length ps] = 0 # [1..<length ps]"
    by (simp add: upt_conv_Cons)
  then have "map line_id ls = batch_ids 0 @ concat (map batch_ids [1..<length ps])"
    using generate_signals_inv(1) [OF assms(1)] by simp
  then have "take 5 (map line_id ls) = batch_ids 0"
    by (simp add: batch_ids_def)
  then show ?thesis by (simp add: take_map batch_ids_def fmt_03d_0)
qed

section \<open>Claims about \<open>generate_signals\<close>\<close>

text \<open>
  C1, as the code has it. The loop runs over the indices from 2 on, so an index emits
  exactly when it is at least 2 and its bar lies strictly inside the previous one: then it
  appends exactly one point and exactly five lines, and otherwise (also at index 0 and at
  index 1) it appends nothing. The two returned lists are the per-index emissions in
  index order.
\<close>

theorem inside_bar_emission:
  assumes "i < length bars"
  shows "(if 2 \<le> i \<and> is_inside_bar (bars ! (i - 1)) (bars ! i)
          then length (points_emitted_at bars i) = 1 \<and> length (lines_emitted_at bars i) = 5
          else points_emitted_at bars i = [] \<and> lines_emitted_at bars i = []) \<and>
         generate_signals bars =
           (concat (map (points_emitted_at bars) [0..<length bars]),
            concat (map (lines_emitted_at bars) [0..<length bars]))"
proof -
  have "generate_signals bars =
           (concat (map (points_emitted_at bars) [0..<length bars]),
            concat (map (lines_emitted_at bars) [0..<length bars]))"
    by (simp add: generate_signals_def Let_def points_concat lines_concat)
  moreover have "(if 2 \<le> i \<and> is_inside_bar (bars ! (i - 1)) (bars ! i)
          then length (points_emitted_at bars i) = 1 \<and> length (lines_emitted_at bars i) = 5
          else points_emitted_at bars i = [] \<and> lines_emitted_at bars i = [])"
  proof (cases "2 \<le> i \<and> is_inside_bar (bars ! (i - 1)) (bars ! i)")
    case True
    then show ?thesis
      by (simp add: points_emitted_inside lines_emitted_inside_length)
  next
    case False
    then show ?thesis using emitted_skip [OF False] by simp
  qed
  ultimately show ?thesis by simp
qed

text \<open>Index 2 of the example bars is an inside bar and emits one point and five lines.\<close>

theorem inside_bar_emission_witness:
  "2 < length ex_bars \<and> is_inside_bar (ex_bars ! (2 - 1)) (ex_bars ! 2) \<and>
   length (points_emitted_at ex_bars 2) = 1 \<and> length (lines_emitted_at ex_bars 2) = 5"
proof -
  have len: "2 < length ex_bars" by (simp add: ex_bars_def)
  from inside_bar_emission [OF len] ex_bars_inside_2 len show ?thesis by simp
qed

text \<open>
  C1 as stated fails at index 1: in the two-bar sequence the second bar lies strictly
  inside the first, and nothing is emitted.
\<close>

theorem first_pair_not_examined:
  "is_inside_bar (ex_pair ! 0) (ex_pair ! 1) \<and>
   points_emitted_at ex_pair 1 = [] \<and> lines_emitted_at ex_pair 1 = [] \<and>
   generate_signals ex_pair = ([], [])"
  by (simp add: ex_pair_def ex_bars_def is_inside_bar_def generate_signals_def gen_upto_def
      init_state_def points_emitted_at_def lines_emitted_at_def)

text \<open>
  C3. For an inside bar at an examined index, with \<open>entry\<close> the current close: when the
  signal is bullish the five lines carry the prices entry, previous low - 0.0005, and
  entry + 1, 2, 3 times (entry - stop-loss); when it is bearish they carry entry,
  previous high + 0.0005, and entry - 1, 2, 3 times (stop-loss - entry). The lines are
  named by the suffixes of their ids. Arithmetic is exact.
\<close>

theorem stop_loss_take_profit_levels:
  assumes "2 \<le> i" "i < length bars" "is_inside_bar (bars ! (i - 1)) (bars ! i)"
    and "prev = bars ! (i - 1)" "entry = close (bars ! i)"
  shows "\<exists>sid. map (\<lambda>l. (line_id l, line_price l)) (lines_emitted_at bars i) =
     (if entry > (high prev + low prev) / 2
      then [(sid @ ''_entry'', entry),
            (sid @ ''_sl'', low prev - 5 / 10000),
            (sid @ ''_tp1'', entry + 1 * (entry - (low prev - 5 / 10000))),
            (sid @ ''_tp2'', entry + 2 * (entry - (low prev - 5 / 10000))),
            (sid @ ''_tp3'', entry + 3 * (entry - (low prev - 5 / 10000)))]
      else [(sid @ ''_entry'', entry),
            (sid @ ''_sl'', high prev + 5 / 10000),
            (sid @ ''_tp1'', entry - 1 * (high prev + 5 / 10000 - entry)),
            (sid @ ''_tp2'', entry - 2 * (high prev + 5 / 10000 - entry)),
            (sid @ ''_tp3'', entry - 3 * (high prev + 5 / 10000 - entry))])"
  unfolding lines_emitted_at_def gen_upto_Suc [OF assms(1)] assms(4,5)
  by (rule loop_body_line_prices [OF assms(3)])

text \<open>The price levels of the bullish signal at index 2 and of the bearish one at index 3.\<close>

theorem stop_loss_take_profit_levels_witness:
  "is_inside_bar (ex_bars ! (2 - 1)) (ex_bars ! 2) \<and>
   (\<exists>sid. map (\<lambda>l. (line_id l, line_price l)) (lines_emitted_at ex_bars 2) =
      [(sid @ ''_entry'', 11045 / 10000), (sid @ ''_sl'', 11025 / 10000),
       (sid @ ''_tp1'', 11065 / 10000), (sid @ ''_tp2'', 11085 / 10000),
       (sid @ ''_tp3'', 11105 / 10000)]) \<and>
   is_inside_bar (ex_bars ! (3 - 1)) (ex_bars ! 3) \<and>
   (\<exists>sid. map (\<lambda>l. (line_id l, line_price l)) (lines_emitted_at ex_bars 3) =
      [(sid @ ''_entry'', 11040 / 10000), (sid @ ''_sl'', 11054 / 10000),
       (sid @ ''_tp1'', 11026 / 10000), (sid @ ''_tp2'', 11012 / 10000),
       (sid @ ''_tp3'', 10998 / 10000)])"
proof -
  have l2: "2 < length ex_bars" and l3: "3 < length ex_bars" by (simp_all add: ex_bars_def)
  from stop_loss_take_profit_levels [OF _ l2 ex_bars_inside_2 refl refl]
    stop_loss_take_profit_levels [OF _ l3 ex_bars_inside_3 refl refl]
    ex_bars_inside_2 ex_bars_inside_3
  show ?thesis by (simp add: ex_bars_nth)
qed

text \<open>
  C4. The generator reads nothing but its argument and starts from fresh accumulators, so
  two invocations on the same bars return the same pair; whenever any line is returned,
  the first five ids are those of \<open>signal_000\<close>, whatever was generated before.
\<close>

theorem generate_signals_deterministic:
  assumes "r1 = generate_signals bars" "r2 = generate_signals bars"
  shows "r1 = r2 \<and>
         (snd r2 \<noteq> [] \<longrightarrow> map line_id (take 5 (snd r2)) =
            [''signal_000_entry'', ''signal_000_sl'', ''signal_000_tp1'', ''signal_000_tp2'',
             ''signal_000_tp3''])"
proof -
  have "generate_signals bars = (fst r2, snd r2)" using assms by simp
  from first_batch_ids [OF this] assms show ?thesis by simp
qed

text \<open>The example bars yield lines, and the first five carry the ids of \<open>signal_000\<close>.\<close>

theorem generate_signals_deterministic_witness:
  "snd (generate_signals ex_bars) \<noteq> [] \<and>
   map line_id (take 5 (snd (generate_signals ex_bars))) =
     [''signal_000_entry'', ''signal_000_sl'', ''signal_000_tp1'', ''signal_000_tp2'',
      ''signal_000_tp3'']"
proof -
  have "length (snd (generate_signals ex_bars)) = 5 * length (fst (generate_signals ex_bars))"
    by (rule generate_signals_inv(3)) simp
  then have ne: "snd (generate_signals ex_bars) \<noteq> []"
    using ex_bars_points_length by auto
  from generate_signals_deterministic [OF refl refl, of ex_bars] ne show ?thesis by simp
qed

text \<open>
  C5. Within one invocation all line ids are pairwise distinct: line \<open>j\<close> of the \<open>k\<close>-th
  signal (both counted from 0, signals in bar order) has the id \<open>signal_\<close> followed by
  \<open>k\<close> zero-padded to three digits and by the \<open>j\<close>-th of the suffixes \<open>_entry\<close>,
  \<open>_sl\<close>, \<open>_tp1\<close>, \<open>_tp2\<close>, \<open>_tp3\<close>.
\<close>

theorem line_ids_distinct:
  assumes "generate_signals bars = (ps, ls)"
  shows "distinct (map line_id ls) \<and>
         (\<forall>k<length ps. \<forall>j<5.
            5 * k + j < length ls \<and>
            line_id (ls ! (5 * k + j)) =
              ''signal_'' @ fmt_03d k @ [''_entry'', ''_sl'', ''_tp1'', ''_tp2'', ''_tp3''] ! j)"
  using generate_signals_inv(1,3) [OF assms] generate_signals_nth_id [OF assms]
    all_ids_distinct [of "length ps"]
  by (simp add: batch_ids_nth)

text \<open>The ten ids of the example are distinct; the last one is \<open>signal_001_tp3\<close>.\<close>

theorem line_ids_distinct_witness:
  "(1::nat) < length (fst (generate_signals ex_bars)) \<and> (4::nat) < 5 \<and>
   distinct (map line_id (snd (generate_signals ex_bars))) \<and>
   line_id (snd (generate_signals ex_bars) ! (5 * 1 + 4)) = ''signal_001_tp3''"
proof -
  have h: "generate_signals ex_bars = (fst (generate_signals ex_bars), snd (generate_signals ex_bars))"
    by simp
  have k: "1 < length (fst (generate_signals ex_bars))"
    using ex_bars_points_length by simp
  have j: "(4::nat) < 5" by simp
  note t = line_ids_distinct [OF h]
  from t have "distinct (map line_id (snd (generate_signals ex_bars)))" by (rule conjunct1)
  moreover from t [THEN conjunct2, rule_format, OF k j]
  have "line_id (snd (generate_signals ex_bars) ! (5 * 1 + 4)) = ''signal_001_tp3''"
    by (simp add: fmt_03d_1)
  ultimately show ?thesis using k by simp
qed

text \<open>
  C10. The returned lists satisfy \<open>len(lines) = 5 * len(points)\<close>, and the five lines at
  the positions \<open>5 * k, \<dots>, 5 * k + 4\<close> belong to point \<open>k\<close>: each starts at that point's
  time, each has \<open>bars = 15\<close>, and their ids end in \<open>_entry\<close>, \<open>_sl\<close>, \<open>_tp1\<close>, \<open>_tp2\<close>,
  \<open>_tp3\<close> in this order.
\<close>

theorem five_lines_per_point:
  assumes "generate_signals bars = (ps, ls)"
  shows "length ls = 5 * length ps \<and>
         (\<forall>k<length ps. \<forall>j<5.
            start_time (ls ! (5 * k + j)) = pt_time (ps ! k) \<and>
            line_bars (ls ! (5 * k + j)) = 15 \<and>
            line_id (ls ! (5 * k + j)) =
              ''signal_'' @ fmt_03d k @ [''_entry'', ''_sl'', ''_tp1'', ''_tp2'', ''_tp3''] ! j)"
  using generate_signals_inv(3) [OF assms] generate_signals_nth_time [OF assms]
    generate_signals_nth_id [OF assms]
  by (simp add: batch_ids_nth)

text \<open>The example yields two points and ten lines; line 7 belongs to point 1.\<close>

theorem five_lines_per_point_witness:
  "(1::nat) < length (fst (generate_signals ex_bars)) \<and> (2::nat) < 5 \<and>
   length (snd (generate_signals ex_bars)) = 10 \<and>
   start_time (snd (generate_signals ex_bars) ! (5 * 1 + 2)) = 1700010800 \<and>
   line_bars (snd (generate_signals ex_bars) ! (5 * 1 + 2)) = 15 \<and>
   line_id (snd (generate_signals ex_bars) ! (5 * 1 + 2)) = ''signal_001_tp1''"
proof -
  have h: "generate_signals ex_bars = (fst (generate_signals ex_bars), snd (generate_signals ex_bars))"
    by simp
  have k: "1 < length (fst (generate_signals ex_bars))"
    using ex_bars_points_length by simp
  have j: "(2::nat) < 5" by simp
  note t = five_lines_per_point [OF h]
  from t have "length (snd (generate_signals ex_bars)) = 10"
    using ex_bars_points_length by simp
  moreover from t [THEN conjunct2, rule_format, OF k j]
  have "start_time (snd (generate_signals ex_bars) ! (5 * 1 + 2)) = 1700010800 \<and>
        line_bars (snd (generate_signals ex_bars) ! (5 * 1 + 2)) = 15 \<and>
        line_id (snd (generate_signals ex_bars) ! (5 * 1 + 2)) = ''signal_001_tp1''"
    by (simp add: fmt_03d_1 ex_bars_second_point_time)
  ultimately show ?thesis using k by simp
qed

section \<open>Claims about the API functions and the single-shot run\<close>

text \<open>
  C6, as the code has it. \<open>get_bars\<close> performs exactly one GET and never raises. It
  returns \<open>None\<close> when the request raises and when the status is not 200. When the status
  is 200 and the body decodes to a JSON object it returns that object's \<open>bars\<close> entry, or
  the empty list when the object has no such key; when the status is 200 and the body
  does not decode to a JSON object it returns \<open>None\<close>.
\<close>

theorem get_bars_contract:
  assumes "get_bars nt symbol timeframe limit = (r, calls)"
    and "req = \<lparr>get_url = API_URL @ ''/api/external/bars'',
                get_params = [(''symbol'', PStr symbol), (''timeframe'', PInt timeframe),
                              (''limit'', PInt limit)],
                get_headers = [(''Authorization'', ''Bearer '' @ API_KEY)],
                get_timeout = 30\<rparr>"
  shows "calls = [Get req] \<and>
         (case http_get nt req of
            Raises e \<Rightarrow> r = None
          | Returns resp \<Rightarrow>
              (status_code resp \<noteq> 200 \<longrightarrow> r = None) \<and>
              (status_code resp = 200 \<longrightarrow>
                 (case json resp of
                    Dict data \<Rightarrow> r = Some (case data ''bars'' of None \<Rightarrow> [] | Some v \<Rightarrow> v)
                  | Invalid \<Rightarrow> r = None
                  | NonDict \<Rightarrow> r = None)))"
  using assms
  by (auto simp: get_bars_def Let_def split: http_result.splits json_body.splits)

text \<open>A 200 response whose object holds the example bars under \<open>bars\<close>.\<close>

theorem get_bars_contract_witness:
  "get_bars (const_net (Returns \<lparr>status_code = 200, text_body = '''',
                                  json = Dict [''bars'' \<mapsto> ex_bars]\<rparr>)
               (Raises ''unused'')) ''EURUSD'' 60 500 =
     (Some ex_bars,
      [Get \<lparr>get_url = API_URL @ ''/api/external/bars'',
            get_params = [(''symbol'', PStr ''EURUSD''), (''timeframe'', PInt 60),
                          (''limit'', PInt 500)],
            get_headers = [(''Authorization'', ''Bearer '' @ API_KEY)], get_timeout = 30\<rparr>])"
  using get_bars_contract [OF surjective_pairing refl,
      of "const_net (Returns \<lparr>status_code = 200, text_body = '''',
                               json = Dict [''bars'' \<mapsto> ex_bars]\<rparr>) (Raises ''unused'')"
         "''EURUSD''" 60 500]
  by (simp add: const_net_def prod_eq_iff)

text \<open>
  C6 as stated fails for a 200 response whose body is not JSON: the result is \<open>None\<close>,
  neither the \<open>bars\<close> array nor the empty list.
\<close>

theorem get_bars_200_without_json:
  "status_code \<lparr>status_code = 200, text_body = ''<html></html>'',
                json = (Invalid :: bar list json_body)\<rparr> = 200 \<and>
   fst (get_bars (const_net (Returns \<lparr>status_code = 200, text_body = ''<html></html>'',
                                      json = Invalid\<rparr>)
                    (Raises ''unused'')) ''EURUSD'' 60 500) = None"
  by (simp add: get_bars_def const_net_def)

text \<open>
  C7. The source at a POST that is answered with status 201 and an empty body: the status
  is 201, and \<open>submit_signals\<close> returns \<open>False\<close>. Decoding the body for the two
  console lines raises before \<open>return True\<close> is reached, and \<open>except Exception\<close>
  turns the raise into \<open>False\<close>.
\<close>

theorem submit_signals_201_without_json:
  "status_code \<lparr>status_code = 201, text_body = '''', json = (Invalid :: pyval json_body)\<rparr> = 201 \<and>
   fst (submit_signals (const_net (Raises ''unused'')
                          (Returns \<lparr>status_code = 201, text_body = '''', json = Invalid\<rparr>))
          INDICATOR_ID SYMBOL TIMEFRAME INDICATOR_NAME [] None None) = False"
  by (simp add: submit_signals_def const_net_def)

text \<open>
  C8. When the fetch yields \<open>None\<close> or the empty list, \<open>run_once\<close> returns \<open>False\<close>
  and makes no POST: its only calls are those of the fetch.
\<close>

theorem run_once_no_bars:
  assumes "fst (get_bars nt SYMBOL TIMEFRAME 500) = None \<or>
           fst (get_bars nt SYMBOL TIMEFRAME 500) = Some []"
  shows "fst (run_once nt now) = False \<and> \<not> list_ex is_post (snd (run_once nt now)) \<and>
         snd (run_once nt now) = snd (get_bars nt SYMBOL TIMEFRAME 500)"
proof -
  have calls: "\<not> list_ex is_post (snd (get_bars nt SYMBOL TIMEFRAME 500))"
    by (simp add: get_bars_def Let_def)
  from assms have "run_once nt now = (False, snd (get_bars nt SYMBOL TIMEFRAME 500))"
    by (auto simp: run_once_def split: prod.splits)
  with calls show ?thesis by simp
qed

text \<open>A 200 response with an empty object (empty list), and a request that raises.\<close>

theorem run_once_no_bars_witness:
  "fst (get_bars (const_net (Returns \<lparr>status_code = 200, text_body = ''{}'', json = Dict Map.empty\<rparr>)
                    (Raises ''unused'')) SYMBOL TIMEFRAME 500) = Some [] \<and>
   fst (run_once (const_net (Returns \<lparr>status_code = 200, text_body = ''{}'', json = Dict Map.empty\<rparr>)
                    (Raises ''unused'')) ex_now) = False \<and>
   \<not> list_ex is_post
       (snd (run_once (const_net (Returns \<lparr>status_code = 200, text_body = ''{}'',
                                            json = Dict Map.empty\<rparr>)
                         (Raises ''unused'')) ex_now)) \<and>
   fst (get_bars (const_net (Raises ''timeout'') (Raises ''unused'')) SYMBOL TIMEFRAME 500) = None \<and>
   fst (run_once (const_net (Raises ''timeout'') (Raises ''unused'')) ex_now) = False \<and>
   \<not> list_ex is_post (snd (run_once (const_net (Raises ''timeout'') (Raises ''unused'')) ex_now))"
proof -
  have a: "fst (get_bars (const_net (Returns \<lparr>status_code = 200, text_body = ''{}'',
                                               json = Dict Map.empty\<rparr>)
                    (Raises ''unused'')) SYMBOL TIMEFRAME 500) = Some []"
    by (simp add: get_bars_def const_net_def)
  have b: "fst (get_bars (const_net (Raises ''timeout'') (Raises ''unused'')) SYMBOL TIMEFRAME 500)
             = None"
    by (simp add: get_bars_def const_net_def)
  from run_once_no_bars [OF disjI2, OF a, of ex_now] run_once_no_bars [OF disjI1, OF b, of ex_now]
    a b
  show ?thesis by blast
qed

text \<open>
  C9. When the fetch yields a non-empty list on which the generator returns no point and
  no line, \<open>run_once\<close> returns \<open>True\<close> and makes no POST: its only calls are those of
  the fetch.
\<close>

theorem run_once_no_signals:
  assumes "fst (get_bars nt SYMBOL TIMEFRAME 500) = Some bs" "bs \<noteq> []"
    and "generate_signals bs = ([], [])"
  shows "fst (run_once nt now) = True \<and> \<not> list_ex is_post (snd (run_once nt now)) \<and>
         snd (run_once nt now) = snd (get_bars nt SYMBOL TIMEFRAME 500)"
proof -
  have calls: "\<not> list_ex is_post (snd (get_bars nt SYMBOL TIMEFRAME 500))"
    by (simp add: get_bars_def Let_def)
  from assms have "run_once nt now = (True, snd (get_bars nt SYMBOL TIMEFRAME 500))"
    by (auto simp: run_once_def split: prod.splits)
  with calls show ?thesis by simp
qed

text \<open>The fetch delivers the two-bar sequence, on which no signal is generated.\<close>

theorem run_once_no_signals_witness:
  "fst (get_bars (const_net (Returns \<lparr>status_code = 200, text_body = '''',
                                      json = Dict [''bars'' \<mapsto> ex_pair]\<rparr>)
                    (Raises ''unused'')) SYMBOL TIMEFRAME 500) = Some ex_pair \<and>
   ex_pair \<noteq> [] \<and> generate_signals ex_pair = ([], []) \<and>
   fst (run_once (const_net (Returns \<lparr>status_code = 200, text_body = '''',
                                      json = Dict [''bars'' \<mapsto> ex_pair]\<rparr>)
                    (Raises ''unused'')) ex_now) = True \<and>
   \<not> list_ex is_post
       (snd (run_once (const_net (Returns \<lparr>status_code = 200, text_body = '''',
                                            json = Dict [''bars'' \<mapsto> ex_pair]\<rparr>)
                         (Raises ''unused'')) ex_now))"
proof -
  have a: "fst (get_bars (const_net (Returns \<lparr>status_code = 200, text_body = '''',
                                               json = Dict [''bars'' \<mapsto> ex_pair]\<rparr>)
                    (Raises ''unused'')) SYMBOL TIMEFRAME 500) = Some ex_pair"
    by (simp add: get_bars_def const_net_def)
  have b: "ex_pair \<noteq> []" by (simp add: ex_pair_def ex_bars_def)
  from run_once_no_signals [OF a b ex_pair_no_signals, of ex_now] a b ex_pair_no_signals
  show ?thesis by blast
qed

end
